theory Spec2Isabelle
  imports Main
begin

section \<open>Command dispatch: authorization gate and rate-limit policy\<close>

text \<open>
  A shallow embedding of the interaction handler of the bot (the default export of the
  interaction-create event and its helper \<open>processCommandInteraction\<close>).
  Mutation of the process-wide objects is explicit state passing over a \<open>world\<close>;
  every call to an external collaborator (response channel, rate-limit managers,
  command handler, logger) is also appended to a trace of events, in call order.
  A rejected promise is a value: \<open>Some cause\<close> is a throw, \<open>None\<close> a normal return.
\<close>

type_synonym ident = string
type_synonym permission = string
type_synonym cause = string

subsection \<open>Rate-limit buckets and managers\<close>

text \<open>
  Modelled from the spec: the rate-limit bucket and manager classes are a library that the
  handler only calls (\<open>acquire\<close>, \<open>limited\<close>, \<open>remainingTime\<close>, \<open>consume\<close>).
  A bucket is a fixed-window counter: \<open>count\<close> units consumed in the window that started
  at \<open>windowStart\<close>, at most \<open>limit\<close> per window of \<open>windowDurationMs\<close>.
\<close>

record bucket =
  count :: nat
  windowStart :: nat
  limit :: nat
  windowDurationMs :: nat

record bucketView =
  limited :: bool
  remainingTime :: nat

text \<open>Modelled from the spec: the window has expired when
  \<open>now \<ge> windowStart + windowDurationMs\<close>.\<close>

definition expired :: "nat \<Rightarrow> bucket \<Rightarrow> bool" where
  "expired t b = (windowStart b + windowDurationMs b \<le> t)"

text \<open>Modelled from the spec: on expiry \<open>count\<close> is reset to 0 and \<open>windowStart\<close> to now.\<close>

definition refresh :: "nat \<Rightarrow> bucket \<Rightarrow> bucket" where
  "refresh t b = (if expired t b then b\<lparr>count := 0, windowStart := t\<rparr> else b)"

text \<open>Modelled from the spec: \<open>acquire\<close> of a bucket evaluates window expiry (resetting if
  needed) and reports \<open>limited\<close> (\<open>count \<ge> limit\<close>) and \<open>remainingTime\<close>
  (\<open>windowStart + windowDurationMs - now\<close>, never negative); it consumes nothing.\<close>

definition bucket_acquire :: "nat \<Rightarrow> bucket \<Rightarrow> bucket \<times> bucketView" where
  "bucket_acquire t b =
     (let b' = refresh t b
      in (b', \<lparr>limited = (limit b' \<le> count b'),
                remainingTime = windowStart b' + windowDurationMs b' - t\<rparr>))"

text \<open>Modelled from the spec: \<open>consume\<close> performs the same window-expiry check and then
  increments \<open>count\<close> by 1; it always succeeds.\<close>

definition bucket_consume :: "nat \<Rightarrow> bucket \<Rightarrow> bucket" where
  "bucket_consume t b = (let b' = refresh t b in b'\<lparr>count := count b' + 1\<rparr>)"

text \<open>Modelled from the spec: a manager owns the mapping identifier \<open>\<rightharpoonup>\<close> bucket of one
  scope, with the \<open>limit\<close> and window it gives to fresh buckets.\<close>

record manager =
  m_limit :: nat
  m_windowDurationMs :: nat
  buckets :: "ident \<rightharpoonup> bucket"

definition fresh_bucket :: "nat \<Rightarrow> manager \<Rightarrow> bucket" where
  "fresh_bucket t m =
     \<lparr>count = 0, windowStart = t, limit = m_limit m, windowDurationMs = m_windowDurationMs m\<rparr>"

text \<open>Modelled from the spec: \<open>acquire(identifier)\<close> looks the bucket up or lazily creates
  it, and returns the bucket's \<open>acquire\<close> result.\<close>

definition manager_acquire :: "nat \<Rightarrow> ident \<Rightarrow> manager \<Rightarrow> manager \<times> bucketView" where
  "manager_acquire t k m =
     (let b = (case buckets m k of None \<Rightarrow> fresh_bucket t m | Some b0 \<Rightarrow> b0);
          (b', v) = bucket_acquire t b
      in (m\<lparr>buckets := (buckets m)(k \<mapsto> b')\<rparr>, v))"

text \<open>Modelled from the spec: \<open>consume\<close> through the handle that \<open>acquire\<close> returned
  mutates the bucket stored under that identifier.\<close>

definition manager_consume :: "nat \<Rightarrow> ident \<Rightarrow> manager \<Rightarrow> manager" where
  "manager_consume t k m =
     (case buckets m k of
        None \<Rightarrow> m
      | Some b \<Rightarrow> m\<lparr>buckets := (buckets m)(k \<mapsto> bucket_consume t b)\<rparr>)"

subsection \<open>Messages, events, interactions, commands\<close>

datatype scope = Global | Guild | User

text \<open>The reply texts of the handler. Both permission checks render the same text,
  \<open>Missing Permissions: <list>\<close>; a rate-limit notice carries the remaining time that the
  source hands to the duration formatter; the generic error notice carries the command
  name only.\<close>

datatype message =
    CommandDisabled
  | OwnerOnly
  | PremiumOnly
  | HelperOnly
  | MissingPermissions "permission list"
  | RateLimitedGlobally nat
  | RateLimitedGuild nat
  | RateLimitedUser nat
  | CommandNotFound
  | ErrorOccurred ident

text \<open>\<open>CreateMessage m e\<close>: a reply with text \<open>m\<close>, \<open>e\<close> telling whether the
  \<open>EPHEMERAL\<close> flag is set.\<close>

datatype event =
    CreateMessage message bool
  | Acquire scope ident
  | Consume scope ident
  | Run ident
  | LogError cause
  | LogDebug ident

datatype InteractionTypes = APPLICATION_COMMAND | APPLICATION_COMMAND_AUTOCOMPLETE | OTHER_TYPE

text \<open>\<open>guild_id\<close> is \<open>None\<close> outside a guild (\<open>interaction.guild\<close> undefined);
  \<open>appPermissions\<close> and \<open>member_permissions\<close> are the optional permission sets of the
  bot and of the calling guild member; \<open>createMessage\<close> tells for each reply whether the
  response channel fails on it.\<close>

record interaction =
  itype :: InteractionTypes
  data_name :: ident
  user_id :: ident
  guild_id :: "ident option"
  appPermissions :: "permission set option"
  member_permissions :: "permission set option"
  createMessage :: "message \<times> bool \<Rightarrow> cause option"

text \<open>The \<open>ratelimit\<close> object of a command: one optional manager per scope. The source
  reads the same property \<open>command.ratelimit.<scope>\<close> both as the manager to acquire from
  and as the test that selects the gating branch.\<close>

record ratelimit =
  global :: "manager option"
  guild :: "manager option"
  user :: "manager option"

text \<open>A command descriptor. \<open>run\<close> gives the outcome of the handler on an interaction:
  \<open>Some cause\<close> when it throws. What a handler itself does to the world is outside this
  model.\<close>

record command =
  disabled :: bool
  superUserOnly :: bool
  premiumOnly :: bool
  helperUserOnly :: bool
  requiredBotPermissions :: "permission list option"
  requiredUserPermissions :: "permission list option"
  ratelimit :: "ratelimit option"
  run :: "interaction \<Rightarrow> cause option"

text \<open>The read-only collaborators: owner and premium lookups, the configuration flag, the
  clock reading of this dispatch, and the answer of the statistics store to the update of
  \<open>commands_failed\<close> that the \<open>catch\<close> awaits: \<open>Some cause\<close> when the store rejects
  it.\<close>

record env =
  isOwner :: "ident \<Rightarrow> bool"
  isPremiumUser :: "ident \<Rightarrow> bool"
  IsInDevelopmentMode :: bool
  now :: nat
  updateCommandsFailed :: "cause option"

text \<open>The mutable process state: the command registry (whose descriptors own the
  rate-limit managers), the two counters of the global statistics document, and the trace
  of external calls. The update of \<open>commands_executed\<close>, awaited inside the \<open>try\<close>, is
  taken to succeed.\<close>

record world =
  commandStoreMap :: "ident \<rightharpoonup> command"
  commands_executed :: nat
  commands_failed :: nat
  events :: "event list"

subsection \<open>Optional chaining\<close>

text \<open>\<open>command?.f\<close> for a boolean property: false when the command is undefined.\<close>

definition opt_flag :: "(command \<Rightarrow> bool) \<Rightarrow> command option \<Rightarrow> bool" where
  "opt_flag f command = (case command of None \<Rightarrow> False | Some c \<Rightarrow> f c)"

text \<open>\<open>command?.f\<close> for an optional property.\<close>

definition opt_field :: "(command \<Rightarrow> 'a option) \<Rightarrow> command option \<Rightarrow> 'a option" where
  "opt_field f command = (case command of None \<Rightarrow> None | Some c \<Rightarrow> f c)"

text \<open>Modelled from the spec: \<open>has\<close> of a permission set is the subset check of the
  permission evaluator. \<open>perms?.has(...required)\<close> is undefined, hence falsy, when the
  permission set itself is undefined.\<close>

definition has :: "permission set option \<Rightarrow> permission list \<Rightarrow> bool" where
  "has perms required =
     (case perms of None \<Rightarrow> False | Some P \<Rightarrow> list_all (\<lambda>p. p \<in> P) required)"

text \<open>\<open>manager?.acquire(k)\<close>: no call and an undefined handle when the manager is
  undefined.\<close>

definition acquire_opt ::
  "nat \<Rightarrow> scope \<Rightarrow> ident \<Rightarrow> manager option \<Rightarrow> manager option \<times> bucketView option \<times> event list" where
  "acquire_opt t s k mo =
     (case mo of
        None \<Rightarrow> (None, None, [])
      | Some m \<Rightarrow> (case manager_acquire t k m of (m', v) \<Rightarrow> (Some m', Some v, [Acquire s k])))"

text \<open>\<open>handle?.consume()\<close>: no call when the handle is undefined; otherwise the bucket
  behind the handle, stored in the manager of that scope, is consumed.\<close>

definition consume_opt ::
  "nat \<Rightarrow> scope \<Rightarrow> ident \<Rightarrow> bucketView option \<Rightarrow> manager option \<Rightarrow> manager option \<times> event list" where
  "consume_opt t s k handle mo =
     (case handle of
        None \<Rightarrow> (mo, [])
      | Some v \<Rightarrow> (map_option (manager_consume t k) mo, [Consume s k]))"

subsection \<open>The authorization gate (the six checks of \<open>processCommandInteraction\<close>, lines 62--175)\<close>

text \<open>The result is the rejection reply of the first check that fires, with its
  \<open>EPHEMERAL\<close> flag, or \<open>None\<close> when every check lets the invocation through.\<close>

definition authorizationGate ::
  "env \<Rightarrow> interaction \<Rightarrow> command option \<Rightarrow> (message \<times> bool) option" where
  "authorizationGate e i command =
     (let owner = isOwner e (user_id i) in
      if opt_flag disabled command \<and> \<not> owner then Some (CommandDisabled, True)
      else if opt_flag superUserOnly command \<and> \<not> owner then Some (OwnerOnly, True)
      else if opt_flag premiumOnly command \<and> \<not> isPremiumUser e (user_id i) \<and> \<not> owner
        then Some (PremiumOnly, True)
      else if opt_flag helperUserOnly command \<and> \<not> owner then Some (HelperOnly, True)
      else
        (case (case opt_field requiredBotPermissions command of
                 Some required \<Rightarrow>
                   if \<not> has (appPermissions i) required
                   then Some (MissingPermissions required, False) else None
               | None \<Rightarrow> None) of
           Some r \<Rightarrow> Some r
         | None \<Rightarrow>
             (case opt_field requiredUserPermissions command of
                Some required \<Rightarrow>
                  if \<not> owner \<and> \<not> has (member_permissions i) required
                  then Some (MissingPermissions required, True) else None
              | None \<Rightarrow> None)))"

subsection \<open>The rate-limit policy (the \<open>command?.ratelimit && !isOwner\<close> block, lines 177--253)\<close>

text \<open>Each scope step works on the policy and the trace so far and returns the rejection
  notice, if the step rejects, with the policy and trace it leaves behind.\<close>

type_synonym rlstate = "ratelimit \<times> event list"

definition globalScope ::
  "nat \<Rightarrow> interaction \<Rightarrow> bucketView option \<Rightarrow> rlstate \<Rightarrow> message option \<times> rlstate" where
  "globalScope t i GlobalRateLimit st =
     (case st of (rl, ev) \<Rightarrow>
        if global rl \<noteq> None then
          (case GlobalRateLimit of
             Some v \<Rightarrow>
               if limited v then (Some (RateLimitedGlobally (remainingTime v)), st)
               else (None, st)
           | None \<Rightarrow> (None, st))
        else
          (case consume_opt t Global (data_name i) GlobalRateLimit (global rl) of
             (g, e) \<Rightarrow> (None, (rl\<lparr>global := g\<rparr>, ev @ e))))"

definition guildScope :: "nat \<Rightarrow> interaction \<Rightarrow> rlstate \<Rightarrow> message option \<times> rlstate" where
  "guildScope t i st =
     (case st of (rl, ev) \<Rightarrow>
        (case guild_id i of
           None \<Rightarrow> (None, st)
         | Some gid \<Rightarrow>
             (case acquire_opt t Guild gid (guild rl) of
                (g1, GuildRateLimit, e1) \<Rightarrow>
                  (let rl1 = rl\<lparr>guild := g1\<rparr>; ev1 = ev @ e1 in
                   if guild rl1 \<noteq> None then
                     (case GuildRateLimit of
                        Some v \<Rightarrow>
                          if limited v
                          then (Some (RateLimitedGuild (remainingTime v)), (rl1, ev1))
                          else (None, (rl1, ev1))
                      | None \<Rightarrow> (None, (rl1, ev1)))
                   else
                     (case consume_opt t Guild gid GuildRateLimit (guild rl1) of
                        (g2, e2) \<Rightarrow> (None, (rl1\<lparr>guild := g2\<rparr>, ev1 @ e2)))))))"

definition userScope ::
  "nat \<Rightarrow> interaction \<Rightarrow> bucketView option \<Rightarrow> rlstate \<Rightarrow> message option \<times> rlstate" where
  "userScope t i UserRateLimit st =
     (case st of (rl, ev) \<Rightarrow>
        if user rl \<noteq> None then
          (case UserRateLimit of
             Some v \<Rightarrow>
               if limited v then (Some (RateLimitedUser (remainingTime v)), st)
               else (None, st)
           | None \<Rightarrow> (None, st))
        else
          (case consume_opt t User (user_id i) UserRateLimit (user rl) of
             (u, e) \<Rightarrow> (None, (rl\<lparr>user := u\<rparr>, ev @ e))))"

text \<open>The whole block: the global and the user handles are acquired first, then the
  scopes are gone through in the order global, guild, user, returning at the first
  rejection.\<close>

definition evaluatePolicy :: "env \<Rightarrow> interaction \<Rightarrow> ratelimit \<Rightarrow> message option \<times> rlstate" where
  "evaluatePolicy e i rl =
     (case acquire_opt (now e) Global (data_name i) (global rl) of
        (g1, GlobalRateLimit, e1) \<Rightarrow>
     (case acquire_opt (now e) User (user_id i) (user rl) of
        (u1, UserRateLimit, e2) \<Rightarrow>
     (case globalScope (now e) i GlobalRateLimit (rl\<lparr>global := g1, user := u1\<rparr>, e1 @ e2) of
        (Some m, st) \<Rightarrow> (Some m, st)
      | (None, st1) \<Rightarrow>
     (case guildScope (now e) i st1 of
        (Some m, st) \<Rightarrow> (Some m, st)
      | (None, st2) \<Rightarrow> userScope (now e) i UserRateLimit st2))))"

subsection \<open>The dispatcher (lines 10--51 and 57--272)\<close>

text \<open>A reply: the call is recorded, and the response channel decides whether it
  throws.\<close>

definition send :: "interaction \<Rightarrow> message \<Rightarrow> bool \<Rightarrow> world \<Rightarrow> cause option \<times> world" where
  "send i m eph w = (createMessage i (m, eph), w\<lparr>events := events w @ [CreateMessage m eph]\<rparr>)"

text \<open>The rate-limit block runs for a command with a \<open>ratelimit\<close> object and a caller who
  is not an owner. The managers are objects owned by the descriptor, so what the block
  does to them is written back to the registry entry.\<close>

definition ratelimitStep ::
  "env \<Rightarrow> interaction \<Rightarrow> command option \<Rightarrow> world \<Rightarrow> message option \<times> world" where
  "ratelimitStep e i command w =
     (case command of
        None \<Rightarrow> (None, w)
      | Some c \<Rightarrow>
          (case ratelimit c of
             None \<Rightarrow> (None, w)
           | Some rl \<Rightarrow>
               if \<not> isOwner e (user_id i) then
                 (case evaluatePolicy e i rl of
                    (r, rl', ev) \<Rightarrow>
                      (r, w\<lparr>commandStoreMap :=
                               (commandStoreMap w)(data_name i \<mapsto> c\<lparr>ratelimit := Some rl'\<rparr>),
                            events := events w @ ev\<rparr>))
               else (None, w)))"

definition processCommandInteraction ::
  "env \<Rightarrow> interaction \<Rightarrow> world \<Rightarrow> cause option \<times> world" where
  "processCommandInteraction e i w =
     (let command = commandStoreMap w (data_name i) in
      case authorizationGate e i command of
        Some (m, eph) \<Rightarrow> send i m eph w
      | None \<Rightarrow>
          (case ratelimitStep e i command w of
             (Some m, w1) \<Rightarrow> send i m True w1
           | (None, w1) \<Rightarrow>
               (case command of
                  Some c \<Rightarrow> (run c i, w1\<lparr>events := events w1 @ [Run (data_name i)]\<rparr>)
                | None \<Rightarrow> send i CommandNotFound True w1)))"

text \<open>The exported handler. The body of the \<open>try\<close> counts the command and processes it;
  the \<open>catch\<close> logs the cause, replies with the generic notice (a failure of that reply
  is dropped by its \<open>.catch\<close>) and, outside development mode, awaits the update of
  \<open>commands_failed\<close>. Nothing guards that last await: when the store rejects the update,
  the rejection is thrown out of the \<open>catch\<close>, hence out of the handler, and the second
  \<open>if\<close> of the handler is not reached. The result says what is thrown to the caller of
  the handler.\<close>

definition tryBody :: "env \<Rightarrow> interaction \<Rightarrow> world \<Rightarrow> cause option \<times> world" where
  "tryBody e i w =
     (let w0 = (if IsInDevelopmentMode e
                then w\<lparr>events := events w @ [LogDebug (data_name i)]\<rparr> else w);
          w1 = w0\<lparr>commands_executed := commands_executed w0 + 1\<rparr>
      in processCommandInteraction e i w1)"

definition catchBody :: "env \<Rightarrow> interaction \<Rightarrow> cause \<Rightarrow> world \<Rightarrow> cause option \<times> world" where
  "catchBody e i c w =
     (let w1 = w\<lparr>events := events w @ [LogError c]\<rparr>;
          w2 = snd (send i (ErrorOccurred (data_name i)) False w1)
      in if \<not> IsInDevelopmentMode e then
           (case updateCommandsFailed e of
              None \<Rightarrow> (None, w2\<lparr>commands_failed := commands_failed w2 + 1\<rparr>)
            | Some c' \<Rightarrow> (Some c', w2))
         else (None, w2))"

definition interactionCreate :: "env \<Rightarrow> interaction \<Rightarrow> world \<Rightarrow> cause option \<times> world" where
  "interactionCreate e i w =
     (case (if itype i = APPLICATION_COMMAND then
              (case tryBody e i w of
                 (None, w1) \<Rightarrow> (None, w1)
               | (Some c, w1) \<Rightarrow> catchBody e i c w1)
            else (None, w)) of
        (Some c, w2) \<Rightarrow> (Some c, w2)
      | (None, w2) \<Rightarrow>
          if itype i = APPLICATION_COMMAND_AUTOCOMPLETE
          then (None, w2\<lparr>events := events w2 @ [LogDebug (data_name i)]\<rparr>)
          else (None, w2))"

subsection \<open>Observations used in the statements\<close>

text \<open>The manager of a scope in a policy, the bucket a scope holds for an identifier and
  the units consumed in it (0 when there is no manager or no bucket).\<close>

definition scope_manager :: "scope \<Rightarrow> ratelimit \<Rightarrow> manager option" where
  "scope_manager s rl = (case s of Global \<Rightarrow> global rl | Guild \<Rightarrow> guild rl | User \<Rightarrow> user rl)"

definition scope_bucket :: "ratelimit \<Rightarrow> scope \<Rightarrow> ident \<Rightarrow> bucket option" where
  "scope_bucket rl s k = (case scope_manager s rl of None \<Rightarrow> None | Some m \<Rightarrow> buckets m k)"

definition manager_count :: "manager option \<Rightarrow> ident \<Rightarrow> nat" where
  "manager_count mo k =
     (case mo of None \<Rightarrow> 0 | Some m \<Rightarrow> (case buckets m k of None \<Rightarrow> 0 | Some b \<Rightarrow> count b))"

definition scope_count :: "ratelimit \<Rightarrow> scope \<Rightarrow> ident \<Rightarrow> nat" where
  "scope_count rl s k = manager_count (scope_manager s rl) k"

text \<open>Modelled from the spec: \<open>count\<close> stands for the units consumed in the current
  window. Read at time \<open>t\<close>, a bucket whose window has expired has consumed none in the
  current one; this is the count that \<open>limited\<close> compares with the limit.\<close>

definition current_count :: "nat \<Rightarrow> bucket \<Rightarrow> nat" where
  "current_count t b = (if expired t b then 0 else count b)"

definition manager_current_count :: "nat \<Rightarrow> manager option \<Rightarrow> ident \<Rightarrow> nat" where
  "manager_current_count t mo k =
     (case mo of
        None \<Rightarrow> 0
      | Some m \<Rightarrow> (case buckets m k of None \<Rightarrow> 0 | Some b \<Rightarrow> current_count t b))"

definition scope_current_count :: "nat \<Rightarrow> ratelimit \<Rightarrow> scope \<Rightarrow> ident \<Rightarrow> nat" where
  "scope_current_count t rl s k = manager_current_count t (scope_manager s rl) k"

text \<open>The same counts read off the registry: those of the policy of the command registered
  under a name (0 when there is no such command or it has no policy).\<close>

definition registered_count :: "world \<Rightarrow> ident \<Rightarrow> scope \<Rightarrow> ident \<Rightarrow> nat" where
  "registered_count w name s k =
     (case commandStoreMap w name of
        None \<Rightarrow> 0
      | Some c \<Rightarrow> (case ratelimit c of None \<Rightarrow> 0 | Some rl \<Rightarrow> scope_count rl s k))"

text \<open>A scope is strict when the test \<open>if (command.ratelimit.<scope>)\<close> of the source
  sends it to the gating branch, that is, when the policy has a manager for it.\<close>

definition strict :: "ratelimit \<Rightarrow> scope \<Rightarrow> bool" where
  "strict rl s = (scope_manager s rl \<noteq> None)"

text \<open>The order in which the scopes are gone through, and the scope a rate-limit notice
  speaks of.\<close>

fun scope_order :: "scope \<Rightarrow> nat" where
  "scope_order Global = 0"
| "scope_order Guild = 1"
| "scope_order User = 2"

fun rejecting_scope :: "message \<Rightarrow> scope option" where
  "rejecting_scope (RateLimitedGlobally r) = Some Global"
| "rejecting_scope (RateLimitedGuild r) = Some Guild"
| "rejecting_scope (RateLimitedUser r) = Some User"
| "rejecting_scope m = None"

text \<open>What \<open>manager?.acquire(k)\<close> leaves of the manager, reports, and adds to the trace.\<close>

definition acquired :: "nat \<Rightarrow> ident \<Rightarrow> manager option \<Rightarrow> manager option" where
  "acquired t k mo = map_option (\<lambda>m. fst (manager_acquire t k m)) mo"

definition view_of :: "nat \<Rightarrow> ident \<Rightarrow> manager option \<Rightarrow> bucketView option" where
  "view_of t k mo = map_option (\<lambda>m. snd (manager_acquire t k m)) mo"

definition acquire_events :: "scope \<Rightarrow> ident \<Rightarrow> manager option \<Rightarrow> event list" where
  "acquire_events s k mo = (case mo of None \<Rightarrow> [] | Some m \<Rightarrow> [Acquire s k])"

text \<open>The policy and trace after the two acquisitions that open the rate-limit block.\<close>

definition entry_state :: "env \<Rightarrow> interaction \<Rightarrow> ratelimit \<Rightarrow> rlstate" where
  "entry_state e i rl =
     (rl\<lparr>global := acquired (now e) (data_name i) (global rl),
         user := acquired (now e) (user_id i) (user rl)\<rparr>,
      acquire_events Global (data_name i) (global rl) @ acquire_events User (user_id i) (user rl))"

text \<open>The replies in a trace, and the events a dispatch added to the trace.\<close>

fun replies :: "event list \<Rightarrow> (message \<times> bool) list" where
  "replies [] = []"
| "replies (CreateMessage m eph # evs) = (m, eph) # replies evs"
| "replies (ev # evs) = replies evs"

definition emitted :: "world \<Rightarrow> world \<Rightarrow> event list" where
  "emitted w w' = drop (length (events w)) (events w')"

subsection \<open>Concrete inputs\<close>

definition ex_env :: env where
  "ex_env = \<lparr>isOwner = (\<lambda>u. u = ''owner''), isPremiumUser = (\<lambda>u. False),
             IsInDevelopmentMode = False, now = 20, updateCommandsFailed = None\<rparr>"

text \<open>The same collaborators with a statistics store that rejects the update of
  \<open>commands_failed\<close>.\<close>

definition ex_down_env :: env where
  "ex_down_env = ex_env\<lparr>updateCommandsFailed := Some ''store down''\<rparr>"

definition ex_interaction :: interaction where
  "ex_interaction =
     \<lparr>itype = APPLICATION_COMMAND, data_name = ''ping'', user_id = ''joe'',
      guild_id = Some ''g1'', appPermissions = Some {''SEND_MESSAGES''},
      member_permissions = Some {}, createMessage = (\<lambda>r. None)\<rparr>"

text \<open>The same invocation by the owner, in a direct message, and over a response channel
  that fails on every reply.\<close>

definition ex_owner_interaction :: interaction where
  "ex_owner_interaction = ex_interaction\<lparr>user_id := ''owner''\<rparr>"

definition ex_dm_interaction :: interaction where
  "ex_dm_interaction = ex_interaction\<lparr>guild_id := None, member_permissions := None\<rparr>"

definition ex_deaf_interaction :: interaction where
  "ex_deaf_interaction = ex_interaction\<lparr>createMessage := (\<lambda>r. Some ''channel closed'')\<rparr>"

definition ex_command :: command where
  "ex_command =
     \<lparr>disabled = False, superUserOnly = False, premiumOnly = False, helperUserOnly = False,
      requiredBotPermissions = None, requiredUserPermissions = None, ratelimit = None,
      run = (\<lambda>i. None)\<rparr>"

definition ex_world :: world where
  "ex_world = \<lparr>commandStoreMap = Map.empty, commands_executed = 0, commands_failed = 0,
               events = []\<rparr>"

text \<open>A command that needs the bot to hold \<open>EMBED_LINKS\<close>, a registry that knows it
  as \<open>ping\<close>, and the owner invoking it where the bot's permission set is undefined.\<close>

definition ex_embed_command :: command where
  "ex_embed_command = ex_command\<lparr>requiredBotPermissions := Some [''EMBED_LINKS'']\<rparr>"

definition ex_embed_world :: world where
  "ex_embed_world = ex_world\<lparr>commandStoreMap := [''ping'' \<mapsto> ex_embed_command]\<rparr>"

definition ex_bare_owner_interaction :: interaction where
  "ex_bare_owner_interaction = ex_owner_interaction\<lparr>appPermissions := None\<rparr>"

text \<open>A command whose handler throws, and a registry that knows it as \<open>ping\<close>.\<close>

definition ex_boom_command :: command where
  "ex_boom_command = ex_command\<lparr>run := (\<lambda>i. Some ''boom'')\<rparr>"

definition ex_boom_world :: world where
  "ex_boom_world = ex_world\<lparr>commandStoreMap := [''ping'' \<mapsto> ex_boom_command]\<rparr>"

text \<open>A command that requires a user permission, registered as \<open>ping\<close>.\<close>

definition ex_guarded_command :: command where
  "ex_guarded_command =
     ex_command\<lparr>requiredBotPermissions := Some [''SEND_MESSAGES''],
                requiredUserPermissions := Some [''MANAGE_GUILD'']\<rparr>"

definition ex_guarded_world :: world where
  "ex_guarded_world = ex_world\<lparr>commandStoreMap := [''ping'' \<mapsto> ex_guarded_command]\<rparr>"

text \<open>Managers: one whose bucket for \<open>ping\<close> is exhausted at time 20, one without
  buckets, one whose bucket for \<open>joe\<close> has an expired window at time 20, and one whose
  bucket for \<open>joe\<close> is in its window.\<close>

definition ex_exhausted :: manager where
  "ex_exhausted =
     \<lparr>m_limit = 1, m_windowDurationMs = 60,
      buckets = [''ping'' \<mapsto> \<lparr>count = 1, windowStart = 0, limit = 1, windowDurationMs = 60\<rparr>]\<rparr>"

definition ex_empty :: manager where
  "ex_empty = \<lparr>m_limit = 5, m_windowDurationMs = 60, buckets = Map.empty\<rparr>"

definition ex_stale :: manager where
  "ex_stale =
     \<lparr>m_limit = 5, m_windowDurationMs = 10,
      buckets = [''joe'' \<mapsto> \<lparr>count = 1, windowStart = 0, limit = 5, windowDurationMs = 10\<rparr>]\<rparr>"

definition ex_running :: manager where
  "ex_running =
     \<lparr>m_limit = 5, m_windowDurationMs = 60,
      buckets = [''joe'' \<mapsto> \<lparr>count = 1, windowStart = 15, limit = 5, windowDurationMs = 60\<rparr>]\<rparr>"

text \<open>A command whose policy has a guild manager and a user manager and no global one,
  registered as \<open>ping\<close>. At time 20 neither scope is limited for \<open>joe\<close> in \<open>g1\<close>.\<close>

definition ex_tracked_command :: command where
  "ex_tracked_command =
     ex_command\<lparr>ratelimit := Some \<lparr>global = None, guild = Some ex_empty, user = Some ex_running\<rparr>\<rparr>"

definition ex_tracked_world :: world where
  "ex_tracked_world = ex_world\<lparr>commandStoreMap := [''ping'' \<mapsto> ex_tracked_command]\<rparr>"

section \<open>Properties\<close>

subsection \<open>The rate-limit block, step by step\<close>

lemmas ex_defs = ex_env_def ex_interaction_def ex_owner_interaction_def ex_dm_interaction_def
  ex_deaf_interaction_def ex_command_def ex_world_def ex_exhausted_def ex_empty_def ex_stale_def
  ex_running_def ex_embed_command_def ex_embed_world_def ex_bare_owner_interaction_def
  ex_down_env_def ex_boom_command_def ex_boom_world_def ex_guarded_command_def
  ex_guarded_world_def ex_tracked_command_def ex_tracked_world_def

lemmas policy_defs = evaluatePolicy_def globalScope_def guildScope_def userScope_def
  acquire_opt_def consume_opt_def manager_acquire_def manager_consume_def bucket_acquire_def
  bucket_consume_def refresh_def expired_def fresh_bucket_def Let_def

lemmas observation_defs = scope_count_def manager_count_def scope_manager_def scope_bucket_def
  strict_def scope_current_count_def manager_current_count_def current_count_def
  registered_count_def

lemmas dispatch_defs = interactionCreate_def tryBody_def catchBody_def
  processCommandInteraction_def ratelimitStep_def authorizationGate_def send_def
  opt_flag_def opt_field_def has_def emitted_def

lemma acquire_opt_eq:
  "acquire_opt t s k mo = (acquired t k mo, view_of t k mo, acquire_events s k mo)"
  by (simp add: acquire_opt_def acquired_def view_of_def acquire_events_def
           split: option.splits prod.splits)

lemma acquired_None [simp]: "(acquired t k mo = None) = (mo = None)"
  by (simp add: acquired_def)

lemma view_of_None [simp]: "(view_of t k mo = None) = (mo = None)"
  by (simp add: view_of_def)

text \<open>The consume branch of a scope is taken exactly when the scope has no manager, and
  then the handle is undefined: the global and the user step leave policy and trace as
  they found them.\<close>

lemma globalScope_state:
  "(global rl = None \<longrightarrow> h = None) \<Longrightarrow> snd (globalScope t i h (rl, ev)) = (rl, ev)"
  by (simp add: globalScope_def consume_opt_def split: option.splits)

lemma userScope_state:
  "(user rl = None \<longrightarrow> h = None) \<Longrightarrow> snd (userScope t i h (rl, ev)) = (rl, ev)"
  by (simp add: userScope_def consume_opt_def split: option.splits)

lemma guildScope_state:
  "snd (guildScope t i (rl, ev)) =
     (case guild_id i of
        None \<Rightarrow> (rl, ev)
      | Some gid \<Rightarrow>
          (rl\<lparr>guild := acquired t gid (guild rl)\<rparr>, ev @ acquire_events Guild gid (guild rl)))"
  by (auto simp: guildScope_def acquire_opt_eq consume_opt_def Let_def acquire_events_def
                 view_of_def split: option.splits)

lemma globalScope_result:
  "fst (globalScope t i h (rl, ev)) =
     (case h of
        None \<Rightarrow> None
      | Some v \<Rightarrow>
          if global rl \<noteq> None \<and> limited v
          then Some (RateLimitedGlobally (remainingTime v)) else None)"
  by (simp add: globalScope_def consume_opt_def split: option.splits)

lemma userScope_result:
  "fst (userScope t i h (rl, ev)) =
     (case h of
        None \<Rightarrow> None
      | Some v \<Rightarrow>
          if user rl \<noteq> None \<and> limited v
          then Some (RateLimitedUser (remainingTime v)) else None)"
  by (simp add: userScope_def consume_opt_def split: option.splits)

lemma guildScope_result:
  "fst (guildScope t i (rl, ev)) =
     (case guild_id i of
        None \<Rightarrow> None
      | Some gid \<Rightarrow>
          (case view_of t gid (guild rl) of
             None \<Rightarrow> None
           | Some v \<Rightarrow> if limited v then Some (RateLimitedGuild (remainingTime v)) else None))"
  by (auto simp: guildScope_def acquire_opt_eq consume_opt_def Let_def view_of_def
           split: option.splits)

lemma evaluatePolicy_unfold:
  "evaluatePolicy e i rl =
     (case globalScope (now e) i (view_of (now e) (data_name i) (global rl)) (entry_state e i rl) of
        (Some m, st) \<Rightarrow> (Some m, st)
      | (None, st1) \<Rightarrow>
          (case guildScope (now e) i st1 of
             (Some m, st) \<Rightarrow> (Some m, st)
           | (None, st2) \<Rightarrow> userScope (now e) i (view_of (now e) (user_id i) (user rl)) st2))"
  unfolding evaluatePolicy_def acquire_opt_eq entry_state_def by simp

text \<open>The policy and trace an evaluation leaves behind: those of the entry when the global
  step rejects, those after the guild step otherwise.\<close>

lemma evaluatePolicy_state:
  "snd (evaluatePolicy e i rl) =
     (if fst (globalScope (now e) i (view_of (now e) (data_name i) (global rl)) (entry_state e i rl))
           \<noteq> None
      then entry_state e i rl
      else snd (guildScope (now e) i (entry_state e i rl)))"
proof -
  obtain rl0 ev0 where st0: "entry_state e i rl = (rl0, ev0)"
    by (cases "entry_state e i rl")
  have g0: "global rl0 = None \<longrightarrow> view_of (now e) (data_name i) (global rl) = None"
    using st0 by (auto simp: entry_state_def)
  have sg: "snd (globalScope (now e) i (view_of (now e) (data_name i) (global rl)) (rl0, ev0))
              = (rl0, ev0)"
    using g0 by (rule globalScope_state)
  obtain rl1 ev1 where st1: "snd (guildScope (now e) i (rl0, ev0)) = (rl1, ev1)"
    by (cases "snd (guildScope (now e) i (rl0, ev0))")
  have "user rl1 = user rl0"
    using st1 by (auto simp: guildScope_state split: option.splits)
  then have u1: "user rl1 = None \<longrightarrow> view_of (now e) (user_id i) (user rl) = None"
    using st0 by (auto simp: entry_state_def)
  have su: "snd (userScope (now e) i (view_of (now e) (user_id i) (user rl)) (rl1, ev1))
              = (rl1, ev1)"
    using u1 by (rule userScope_state)
  show ?thesis
    unfolding evaluatePolicy_unfold st0
    using sg st1 su
    by (cases "globalScope (now e) i (view_of (now e) (data_name i) (global rl)) (rl0, ev0)";
        cases "guildScope (now e) i (rl0, ev0)")
       (auto split: option.splits)
qed

lemma evaluatePolicy_result:
  "fst (evaluatePolicy e i rl) =
     (case fst (globalScope (now e) i (view_of (now e) (data_name i) (global rl))
                  (entry_state e i rl)) of
        Some m \<Rightarrow> Some m
      | None \<Rightarrow>
          (case fst (guildScope (now e) i (entry_state e i rl)) of
             Some m \<Rightarrow> Some m
           | None \<Rightarrow>
               fst (userScope (now e) i (view_of (now e) (user_id i) (user rl))
                      (snd (guildScope (now e) i (entry_state e i rl))))))"
  unfolding evaluatePolicy_unfold
  using globalScope_state [of "fst (entry_state e i rl)"
          "view_of (now e) (data_name i) (global rl)" "now e" i "snd (entry_state e i rl)"]
  by (cases "globalScope (now e) i (view_of (now e) (data_name i) (global rl)) (entry_state e i rl)";
      cases "guildScope (now e) i (entry_state e i rl)")
     (auto simp: entry_state_def split: option.splits)

text \<open>No path of the block consumes: the trace of an evaluation holds acquisitions only.\<close>

lemma evaluatePolicy_no_consume:
  "Consume s k \<notin> set (snd (snd (evaluatePolicy e i rl)))"
  by (cases "guild_id i")
     (auto simp: evaluatePolicy_state entry_state_def guildScope_state acquire_events_def
           split: option.splits)

lemma acquire_events_replies [simp]: "replies (acquire_events s k mo) = []"
  by (simp add: acquire_events_def split: option.splits)

lemma replies_append [simp]: "replies (xs @ ys) = replies xs @ replies ys"
  by (induction xs rule: replies.induct) simp_all

lemma evaluatePolicy_replies [simp]: "replies (snd (snd (evaluatePolicy e i rl))) = []"
  by (cases "guild_id i") (simp_all add: evaluatePolicy_state entry_state_def guildScope_state)

subsection \<open>Bucket counts under acquisition\<close>

lemma manager_acquire_buckets:
  "buckets (fst (manager_acquire t k m)) =
     (buckets m)(k \<mapsto> refresh t (case buckets m k of None \<Rightarrow> fresh_bucket t m | Some b \<Rightarrow> b))"
  by (simp add: manager_acquire_def bucket_acquire_def Let_def)

lemma manager_count_acquired_le: "manager_count (acquired t k mo) k' \<le> manager_count mo k'"
  by (cases mo)
     (auto simp: manager_count_def acquired_def manager_acquire_buckets refresh_def
                 fresh_bucket_def split: option.splits)

lemma manager_count_acquired_eq:
  "\<forall>b. buckets m k' = Some b \<longrightarrow> \<not> expired t b \<Longrightarrow>
   manager_count (acquired t k (Some m)) k' = manager_count (Some m) k'"
  by (auto simp: manager_count_def acquired_def manager_acquire_buckets refresh_def
                 fresh_bucket_def split: option.splits)

lemma current_count_refresh [simp]: "current_count t (refresh t b) = current_count t b"
  by (simp add: current_count_def refresh_def expired_def)

lemma manager_current_count_acquired:
  "manager_current_count t (acquired t k mo) k' = manager_current_count t mo k'"
  by (cases mo)
     (auto simp: manager_current_count_def acquired_def manager_acquire_buckets
                 current_count_def fresh_bucket_def refresh_def expired_def
           split: option.splits)

lemma evaluatePolicy_scope_manager:
  "scope_manager s (fst (snd (evaluatePolicy e i rl))) = scope_manager s rl \<or>
   (\<exists>k. scope_manager s (fst (snd (evaluatePolicy e i rl)))
           = acquired (now e) k (scope_manager s rl))"
  by (cases s; cases "guild_id i")
     (auto simp: evaluatePolicy_state entry_state_def guildScope_state scope_manager_def)

lemma evaluatePolicy_count_le:
  "scope_count (fst (snd (evaluatePolicy e i rl))) s k \<le> scope_count rl s k"
  using evaluatePolicy_scope_manager [of s e i rl]
  by (auto simp: scope_count_def manager_count_acquired_le)

lemma evaluatePolicy_count_eq:
  assumes "scope_manager s rl = Some m"
    and "\<forall>b. buckets m k = Some b \<longrightarrow> \<not> expired (now e) b"
  shows "scope_count (fst (snd (evaluatePolicy e i rl))) s k = scope_count rl s k"
  using evaluatePolicy_scope_manager [of s e i rl] assms
  by (auto simp: scope_count_def manager_count_acquired_eq)

lemma evaluatePolicy_current_count:
  "scope_current_count (now e) (fst (snd (evaluatePolicy e i rl))) s k
     = scope_current_count (now e) rl s k"
  using evaluatePolicy_scope_manager [of s e i rl]
  by (auto simp: scope_current_count_def manager_current_count_acquired)

subsection \<open>The dispatcher around the two gates\<close>

lemma authorizationGate_None [simp]: "authorizationGate e i None = None"
  by (simp add: authorizationGate_def opt_flag_def opt_field_def)

lemma ratelimitStep_owner: "isOwner e (user_id i) \<Longrightarrow> ratelimitStep e i command w = (None, w)"
  by (simp add: ratelimitStep_def split: option.splits)

lemma ratelimitStep_None [simp]: "ratelimitStep e i None w = (None, w)"
  by (simp add: ratelimitStep_def)

text \<open>For a caller who is not an owner the rate-limit step is the policy evaluation, written
  back to the descriptor.\<close>

lemma ratelimitStep_evaluate:
  assumes "\<not> isOwner e (user_id i)" and "ratelimit c = Some rl"
  shows "ratelimitStep e i (Some c) w =
     (fst (evaluatePolicy e i rl),
      w\<lparr>commandStoreMap := (commandStoreMap w)
           (data_name i \<mapsto> c\<lparr>ratelimit := Some (fst (snd (evaluatePolicy e i rl)))\<rparr>),
        events := events w @ snd (snd (evaluatePolicy e i rl))\<rparr>)"
  using assms by (simp add: ratelimitStep_def split: prod.splits)

text \<open>A rejection of the rate-limit step is replied, and the handler is not run.\<close>

lemma process_ratelimited:
  assumes "commandStoreMap w (data_name i) = Some c"
    and "authorizationGate e i (Some c) = None"
    and "ratelimitStep e i (Some c) w = (Some m, w1)"
  shows "processCommandInteraction e i w = send i m True w1"
  using assms by (simp add: processCommandInteraction_def)

lemma send_fields [simp]:
  "commands_executed (snd (send i m eph w)) = commands_executed w"
  "commands_failed (snd (send i m eph w)) = commands_failed w"
  "commandStoreMap (snd (send i m eph w)) = commandStoreMap w"
  "events (snd (send i m eph w)) = events w @ [CreateMessage m eph]"
  by (simp_all add: send_def)

lemma ratelimitStep_counters [simp]:
  "commands_executed (snd (ratelimitStep e i command w)) = commands_executed w"
  "commands_failed (snd (ratelimitStep e i command w)) = commands_failed w"
  by (simp_all add: ratelimitStep_def split: option.splits prod.splits)

lemma process_counters [simp]:
  "commands_executed (snd (processCommandInteraction e i w)) = commands_executed w"
  "commands_failed (snd (processCommandInteraction e i w)) = commands_failed w"
proof -
  obtain r w1 where rl: "ratelimitStep e i (commandStoreMap w (data_name i)) w = (r, w1)"
    by (cases "ratelimitStep e i (commandStoreMap w (data_name i)) w")
  have "commands_executed w1 = commands_executed w" and "commands_failed w1 = commands_failed w"
    using ratelimitStep_counters [of e i "commandStoreMap w (data_name i)" w] rl by simp_all
  then show "commands_executed (snd (processCommandInteraction e i w)) = commands_executed w"
    and "commands_failed (snd (processCommandInteraction e i w)) = commands_failed w"
    using rl by (simp_all add: processCommandInteraction_def Let_def split: option.splits)
qed

lemma ratelimitStep_result_indep:
  "fst (ratelimitStep e i command w) = fst (ratelimitStep e i command w')"
  by (simp add: ratelimitStep_def split: option.splits prod.splits)

lemma ratelimitStep_events:
  "\<exists>ev. events (snd (ratelimitStep e i command w)) = events w @ ev \<and> replies ev = []"
  by (auto simp: ratelimitStep_def split: option.splits prod.splits)
     (metis evaluatePolicy_replies snd_conv)

lemma ratelimitStep_no_consume:
  "\<exists>ev. events (snd (ratelimitStep e i command w)) = events w @ ev \<and> Consume s k \<notin> set ev"
  by (auto simp: ratelimitStep_def evaluatePolicy_no_consume split: option.splits prod.splits)
     (metis evaluatePolicy_no_consume snd_conv)

text \<open>No dispatch makes a consume call: what a dispatch adds to the trace holds none.\<close>

lemma processCommandInteraction_no_consume:
  "Consume s k \<notin> set (emitted w (snd (processCommandInteraction e i w)))"
proof -
  obtain r w1 where rl: "ratelimitStep e i (commandStoreMap w (data_name i)) w = (r, w1)"
    by (cases "ratelimitStep e i (commandStoreMap w (data_name i)) w")
  obtain ev where ev: "events w1 = events w @ ev" "Consume s k \<notin> set ev"
    using ratelimitStep_no_consume [of e i "commandStoreMap w (data_name i)" w s k] rl by auto
  show ?thesis
    using rl ev
    by (auto simp: processCommandInteraction_def emitted_def send_def Let_def
             split: option.splits)
qed

text \<open>A dispatch that reaches a handler which throws: what the \<open>try\<close> hands to the
  \<open>catch\<close>.\<close>

lemma tryBody_handler_throws:
  assumes "commandStoreMap w (data_name i) = Some c"
    and "authorizationGate e i (Some c) = None"
    and "fst (ratelimitStep e i (Some c) w) = None"
    and "run c i = Some cause"
  shows "\<exists>w2 ev. tryBody e i w = (Some cause, w2) \<and>
           events w2 = events w @ ev @ [Run (data_name i)] \<and> replies ev = [] \<and>
           commands_failed w2 = commands_failed w"
proof -
  define w1 where "w1 =
    (if IsInDevelopmentMode e then w\<lparr>events := events w @ [LogDebug (data_name i)]\<rparr> else w)
      \<lparr>commands_executed := commands_executed w + 1\<rparr>"
  have cmd1: "commandStoreMap w1 (data_name i) = Some c"
    and ev1: "\<exists>ev. events w1 = events w @ ev \<and> replies ev = []"
    and f1: "commands_failed w1 = commands_failed w"
    using assms(1) by (auto simp: w1_def)
  have try1: "tryBody e i w = processCommandInteraction e i w1"
    by (simp add: tryBody_def w1_def Let_def)
  obtain r w2 where rl: "ratelimitStep e i (Some c) w1 = (r, w2)"
    by (cases "ratelimitStep e i (Some c) w1")
  have "r = None"
    using rl assms(3) ratelimitStep_result_indep [of e i "Some c" w1 w] by simp
  have ev2: "\<exists>ev. events w2 = events w1 @ ev \<and> replies ev = []"
    using ratelimitStep_events [of e i "Some c" w1] rl by simp
  have f2: "commands_failed w2 = commands_failed w1"
    using ratelimitStep_counters(2) [of e i "Some c" w1] rl by simp
  have p: "processCommandInteraction e i w1 =
      (Some cause, w2\<lparr>events := events w2 @ [Run (data_name i)]\<rparr>)"
    using cmd1 assms(2,4) rl \<open>r = None\<close> by (simp add: processCommandInteraction_def)
  obtain ev where ev: "events w2 = events w @ ev" "replies ev = []"
    using ev1 ev2 by auto
  show ?thesis
    using try1 p ev f1 f2 by auto
qed

text \<open>In development mode, or when the store accepts the update of \<open>commands_failed\<close>,
  the failure of the handler ends in the \<open>catch\<close>: nothing is thrown, the one reply is
  the generic notice, and the failure is counted outside development mode.\<close>

lemma handler_failure_store_accepts:
  assumes "itype i = APPLICATION_COMMAND"
    and "commandStoreMap w (data_name i) = Some c"
    and "authorizationGate e i (Some c) = None"
    and "fst (ratelimitStep e i (Some c) w) = None"
    and "run c i = Some cause"
    and "IsInDevelopmentMode e \<or> updateCommandsFailed e = None"
  shows "fst (interactionCreate e i w) = None \<and>
         replies (emitted w (snd (interactionCreate e i w)))
           = [(ErrorOccurred (data_name i), False)] \<and>
         commands_failed (snd (interactionCreate e i w)) =
           commands_failed w + (if IsInDevelopmentMode e then 0 else 1)"
proof -
  obtain w2 ev where t: "tryBody e i w = (Some cause, w2)"
    and ev: "events w2 = events w @ ev @ [Run (data_name i)]" "replies ev = []"
    and f: "commands_failed w2 = commands_failed w"
    using tryBody_handler_throws [OF assms(2-5)] by blast
  show ?thesis
    using assms(1,6) t ev f
    by (auto simp: interactionCreate_def catchBody_def send_def emitted_def Let_def)
qed

text \<open>Outside development mode, when the store rejects the update of
  \<open>commands_failed\<close>, that rejection is thrown by the exported handler; the generic
  notice has been sent and the failure is not counted.\<close>

lemma handler_failure_store_rejects:
  assumes "itype i = APPLICATION_COMMAND"
    and "commandStoreMap w (data_name i) = Some c"
    and "authorizationGate e i (Some c) = None"
    and "fst (ratelimitStep e i (Some c) w) = None"
    and "run c i = Some cause"
    and "\<not> IsInDevelopmentMode e" and "updateCommandsFailed e = Some c'"
  shows "fst (interactionCreate e i w) = Some c' \<and>
         replies (emitted w (snd (interactionCreate e i w)))
           = [(ErrorOccurred (data_name i), False)] \<and>
         commands_failed (snd (interactionCreate e i w)) = commands_failed w"
proof -
  obtain w2 ev where t: "tryBody e i w = (Some cause, w2)"
    and ev: "events w2 = events w @ ev @ [Run (data_name i)]" "replies ev = []"
    and f: "commands_failed w2 = commands_failed w"
    using tryBody_handler_throws [OF assms(2-5)] by blast
  show ?thesis
    using assms(1,6,7) t ev f
    by (auto simp: interactionCreate_def catchBody_def send_def emitted_def Let_def)
qed


lemma evaluatePolicy_rejects:
  assumes "fst (evaluatePolicy e i rl) = Some m"
  shows "(\<exists>r. m = RateLimitedGlobally r \<and> global rl \<noteq> None) \<or>
         (\<exists>r. m = RateLimitedGuild r \<and> guild rl \<noteq> None) \<or>
         (\<exists>r. m = RateLimitedUser r \<and> user rl \<noteq> None)"
  using assms
  by (cases "guild_id i")
     (auto simp: evaluatePolicy_result globalScope_result guildScope_result userScope_result
                 guildScope_state entry_state_def view_of_def split: option.splits if_splits)

section \<open>The claims\<close>

subsection \<open>C1: scopes that are tracked but do not gate\<close>


subsection \<open>C2: a limited strict global scope stops the evaluation\<close>

text \<open>
  Claim C2 says that when the global scope is strict and limited the evaluation stops with
  a rejection carrying the global scope and its remaining time, and that the guild and the
  user scope are neither acquired nor consumed. The code acquires the user handle before it
  looks at the global one. What holds: the evaluation rejects with the global notice and the
  remaining time of the global bucket; the guild manager is untouched; nothing is consumed;
  the user manager, when the policy has one, has been acquired from (which may create or
  window-reset the caller's bucket), and the trace is the global acquisition followed by
  that user acquisition.
\<close>

theorem global_limited_stops:
  assumes "global rl = Some m"
    and "limited (snd (manager_acquire (now e) (data_name i) m))"
  shows "evaluatePolicy e i rl =
     (Some (RateLimitedGlobally (remainingTime (snd (manager_acquire (now e) (data_name i) m)))),
      rl\<lparr>global := Some (fst (manager_acquire (now e) (data_name i) m)),
         user := acquired (now e) (user_id i) (user rl)\<rparr>,
      Acquire Global (data_name i) # acquire_events User (user_id i) (user rl))"
proof -
  have r: "fst (evaluatePolicy e i rl) =
      Some (RateLimitedGlobally (remainingTime (snd (manager_acquire (now e) (data_name i) m))))"
    using assms by (simp add: evaluatePolicy_result globalScope_result entry_state_def view_of_def)
  have s: "snd (evaluatePolicy e i rl) = entry_state e i rl"
    using assms by (simp add: evaluatePolicy_state globalScope_result entry_state_def view_of_def)
  show ?thesis
    using r s assms(1) by (simp add: prod_eq_iff entry_state_def acquired_def acquire_events_def)
qed

theorem global_limited_stops_witness:
  "global \<lparr>global = Some ex_exhausted, guild = Some ex_empty, user = Some ex_running\<rparr>
     = Some ex_exhausted \<and>
   limited (snd (manager_acquire (now ex_env) (data_name ex_interaction) ex_exhausted)) \<and>
   evaluatePolicy ex_env ex_interaction
       \<lparr>global = Some ex_exhausted, guild = Some ex_empty, user = Some ex_running\<rparr> =
     (Some (RateLimitedGlobally 40),
      \<lparr>global = Some ex_exhausted, guild = Some ex_empty, user = Some ex_running\<rparr>,
      [Acquire Global ''ping'', Acquire User ''joe''])"
proof -
  have h: "limited (snd (manager_acquire (now ex_env) (data_name ex_interaction) ex_exhausted))"
    by (simp add: ex_defs policy_defs)
  have g: "global \<lparr>global = Some ex_exhausted, guild = Some ex_empty, user = Some ex_running\<rparr>
             = Some ex_exhausted"
    by simp
  show ?thesis
    using h global_limited_stops [of _ ex_exhausted ex_env ex_interaction, OF g h]
    by (simp add: ex_defs policy_defs acquired_def acquire_events_def)
qed

text \<open>
  The claim fails where the user manager has no bucket yet for the caller: the global scope
  is strict and limited, and still the evaluation acquires from the user manager, which
  creates the caller's bucket.
\<close>

theorem user_scope_acquired_counterexample:
  "global \<lparr>global = Some ex_exhausted, guild = None, user = Some ex_empty\<rparr> = Some ex_exhausted \<and>
   limited (snd (manager_acquire (now ex_env) (data_name ex_interaction) ex_exhausted)) \<and>
   fst (evaluatePolicy ex_env ex_interaction
          \<lparr>global = Some ex_exhausted, guild = None, user = Some ex_empty\<rparr>)
     = Some (RateLimitedGlobally 40) \<and>
   scope_bucket \<lparr>global = Some ex_exhausted, guild = None, user = Some ex_empty\<rparr> User ''joe'' = None \<and>
   scope_bucket (fst (snd (evaluatePolicy ex_env ex_interaction
       \<lparr>global = Some ex_exhausted, guild = None, user = Some ex_empty\<rparr>))) User ''joe''
     = Some \<lparr>count = 0, windowStart = 20, limit = 5, windowDurationMs = 60\<rparr> \<and>
   snd (snd (evaluatePolicy ex_env ex_interaction
       \<lparr>global = Some ex_exhausted, guild = None, user = Some ex_empty\<rparr>))
     = [Acquire Global ''ping'', Acquire User ''joe'']"
  by (simp add: ex_defs policy_defs observation_defs)

subsection \<open>C3: the command-execution counter\<close>




subsection \<open>C4: what the owner bypasses\<close>

text \<open>
  Claim C4 says that every step of the authorization gate, the bot-permission check
  included, is bypassed for the owner. The bot-permission check does not ask who the caller
  is. What holds: for an owner the gate is the bot-permission check alone: the owner is
  never rejected by the disabled, owner-only, premium-only, helper-only or user-permission
  check, and is rejected exactly when the command declares bot permissions that the bot's
  permission set in the invocation context does not all contain (or that set is missing),
  with the missing-permissions reply, not ephemeral.
\<close>

theorem owner_passes_all_but_bot_permissions:
  assumes "isOwner e (user_id i)"
  shows "authorizationGate e i command =
           (case opt_field requiredBotPermissions command of
              None \<Rightarrow> None
            | Some required \<Rightarrow>
                if has (appPermissions i) required then None
                else Some (MissingPermissions required, False))"
  using assms by (simp add: authorizationGate_def split: option.splits)

theorem owner_passes_all_but_bot_permissions_witness:
  "isOwner ex_env (user_id ex_owner_interaction) \<and>
   authorizationGate ex_env ex_owner_interaction
     (Some (ex_command\<lparr>disabled := True, superUserOnly := True, premiumOnly := True,
                       helperUserOnly := True,
                       requiredBotPermissions := Some [''SEND_MESSAGES''],
                       requiredUserPermissions := Some [''MANAGE_GUILD'']\<rparr>)) = None"
proof -
  have h: "isOwner ex_env (user_id ex_owner_interaction)"
    by (simp add: ex_defs)
  show ?thesis
    using h owner_passes_all_but_bot_permissions [OF h]
    by (simp add: ex_defs opt_field_def has_def)
qed

text \<open>
  The claim fails for the owner invoking a command that requires \<open>EMBED_LINKS\<close> where the
  bot holds \<open>SEND_MESSAGES\<close> only: the gate rejects the owner, and the dispatch replies
  with the missing-permissions text and does not run the handler. It fails in the same way
  where the bot's permission set is undefined.
\<close>

theorem owner_rejected_counterexample:
  "isOwner ex_env (user_id ex_owner_interaction) \<and>
   authorizationGate ex_env ex_owner_interaction (Some ex_embed_command)
     = Some (MissingPermissions [''EMBED_LINKS''], False) \<and>
   events (snd (processCommandInteraction ex_env ex_owner_interaction ex_embed_world))
     = [CreateMessage (MissingPermissions [''EMBED_LINKS'']) False] \<and>
   isOwner ex_env (user_id ex_bare_owner_interaction) \<and>
   authorizationGate ex_env ex_bare_owner_interaction (Some ex_embed_command)
     = Some (MissingPermissions [''EMBED_LINKS''], False)"
  by (simp add: ex_defs dispatch_defs Let_def)

subsection \<open>C5: strict scopes are not consumed\<close>

text \<open>
  Claim C5: for every strict configured scope that is not limited at evaluation time, the
  policy evaluation leaves that scope's bucket count unchanged: strict scopes that pass are
  never incremented on that call, so a strict-only scope never accumulates count through
  the dispatcher. For every strict scope, limited or not, and every identifier, the
  evaluation does not consume the scope, and the units consumed in the current window are
  the same after the evaluation as before. The stored number is never higher afterwards; it
  is the same unless the bucket's window had expired, where acquiring restarts the window
  with the number 0.
\<close>

theorem strict_scope_count_unchanged:
  assumes "scope_manager s rl = Some m"
  shows "Consume s k \<notin> set (snd (snd (evaluatePolicy e i rl))) \<and>
         scope_current_count (now e) (fst (snd (evaluatePolicy e i rl))) s k
           = scope_current_count (now e) rl s k \<and>
         scope_count (fst (snd (evaluatePolicy e i rl))) s k \<le> scope_count rl s k \<and>
         ((\<forall>b. buckets m k = Some b \<longrightarrow> \<not> expired (now e) b) \<longrightarrow>
            scope_count (fst (snd (evaluatePolicy e i rl))) s k = scope_count rl s k)"
  using assms evaluatePolicy_count_eq [of s rl m k e i]
  by (simp add: evaluatePolicy_no_consume evaluatePolicy_count_le evaluatePolicy_current_count)

theorem strict_scope_count_unchanged_witness:
  "scope_manager User \<lparr>global = None, guild = None, user = Some ex_running\<rparr> = Some ex_running \<and>
   buckets ex_running ''joe''
     = Some \<lparr>count = 1, windowStart = 15, limit = 5, windowDurationMs = 60\<rparr> \<and>
   \<not> expired (now ex_env) \<lparr>count = 1, windowStart = 15, limit = 5, windowDurationMs = 60\<rparr> \<and>
   fst (evaluatePolicy ex_env ex_interaction \<lparr>global = None, guild = None, user = Some ex_running\<rparr>)
     = None \<and>
   scope_count \<lparr>global = None, guild = None, user = Some ex_running\<rparr> User ''joe'' = 1 \<and>
   scope_count (fst (snd (evaluatePolicy ex_env ex_interaction
      \<lparr>global = None, guild = None, user = Some ex_running\<rparr>))) User ''joe'' = 1 \<and>
   scope_current_count (now ex_env) (fst (snd (evaluatePolicy ex_env ex_interaction
      \<lparr>global = None, guild = None, user = Some ex_running\<rparr>))) User ''joe'' = 1"
proof -
  have h: "scope_manager User \<lparr>global = None, guild = None, user = Some ex_running\<rparr>
             = Some ex_running"
    by (simp add: scope_manager_def)
  have u: "\<forall>b. buckets ex_running ''joe'' = Some b \<longrightarrow> \<not> expired (now ex_env) b"
    by (simp add: ex_defs expired_def)
  have c: "scope_count \<lparr>global = None, guild = None, user = Some ex_running\<rparr> User ''joe'' = 1"
    by (simp add: ex_defs observation_defs)
  have d: "scope_current_count (now ex_env)
             \<lparr>global = None, guild = None, user = Some ex_running\<rparr> User ''joe'' = 1"
    by (simp add: ex_defs observation_defs expired_def)
  have r: "fst (evaluatePolicy ex_env ex_interaction
                  \<lparr>global = None, guild = None, user = Some ex_running\<rparr>) = None"
    by (simp add: ex_defs policy_defs)
  have b: "buckets ex_running ''joe''
             = Some \<lparr>count = 1, windowStart = 15, limit = 5, windowDurationMs = 60\<rparr>"
    by (simp add: ex_defs)
  have x: "\<not> expired (now ex_env) \<lparr>count = 1, windowStart = 15, limit = 5, windowDurationMs = 60\<rparr>"
    by (simp add: ex_defs expired_def)
  show ?thesis
    using h u b x c d r strict_scope_count_unchanged [OF h, of "''joe''" ex_env ex_interaction]
    by simp
qed

subsection \<open>C6: the disabled check comes before the owner-only check\<close>

text \<open>
  Claim C6: for a command with \<open>disabled\<close> and \<open>superUserOnly\<close> both set and a caller
  who is not an owner, the invocation is rejected with the disabled-command message and
  never with the owner-only message; one check fires. The gate answers with the disabled
  reply, and the dispatch sends that one reply (ephemeral) and does nothing else: no other
  reply, no rate-limit call, no handler run.
\<close>

theorem disabled_wins_over_owner_only:
  assumes "commandStoreMap w (data_name i) = Some c"
    and "disabled c" and "superUserOnly c" and "\<not> isOwner e (user_id i)"
  shows "authorizationGate e i (Some c) = Some (CommandDisabled, True) \<and>
         processCommandInteraction e i w =
           (createMessage i (CommandDisabled, True),
            w\<lparr>events := events w @ [CreateMessage CommandDisabled True]\<rparr>)"
  using assms
  by (simp add: processCommandInteraction_def authorizationGate_def opt_flag_def send_def)

theorem disabled_wins_over_owner_only_witness:
  "\<not> isOwner ex_env (user_id ex_interaction) \<and>
   events (snd (processCommandInteraction ex_env ex_interaction
     (ex_world\<lparr>commandStoreMap :=
        [''ping'' \<mapsto> ex_command\<lparr>disabled := True, superUserOnly := True\<rparr>]\<rparr>)))
     = [CreateMessage CommandDisabled True]"
  using disabled_wins_over_owner_only [of
      "ex_world\<lparr>commandStoreMap :=
         [''ping'' \<mapsto> ex_command\<lparr>disabled := True, superUserOnly := True\<rparr>]\<rparr>"
      ex_interaction "ex_command\<lparr>disabled := True, superUserOnly := True\<rparr>" ex_env]
  by (simp add: ex_defs)

subsection \<open>C7: a failing handler\<close>

text \<open>
  Claim C7: whenever the command handler throws, the failure is caught by the dispatcher
  and goes no further; the user is sent a generic error message that does not contain the
  cause; a failure of that reply is dropped; the failure counter is incremented if and only
  if the process is not in development mode. The \<open>catch\<close> guards its reply with
  \<open>.catch\<close> and leaves the update of \<open>commands_failed\<close> after it unguarded. Here the
  process is not in development mode, the handler of \<open>ping\<close> throws \<open>boom\<close>, and the
  statistics store rejects the update of \<open>commands_failed\<close> with \<open>store down\<close>: the
  handler's failure is caught, logged and answered with the generic notice, and then the
  exported handler throws \<open>store down\<close> to its caller, with the failure not counted.
\<close>

theorem store_rejection_escapes_the_handler:
  "\<not> IsInDevelopmentMode ex_down_env \<and>
   updateCommandsFailed ex_down_env = Some ''store down'' \<and>
   run ex_boom_command ex_interaction = Some ''boom'' \<and>
   commands_failed ex_boom_world = 0 \<and>
   interactionCreate ex_down_env ex_interaction ex_boom_world =
     (Some ''store down'',
      ex_boom_world\<lparr>commands_executed := 1, commands_failed := 0,
        events := [Run ''ping'', LogError ''boom'',
                   CreateMessage (ErrorOccurred ''ping'') False]\<rparr>)"
  by (simp add: ex_defs dispatch_defs Let_def)

subsection \<open>C8: an unknown command\<close>

text \<open>
  Claim C8: for a command name absent from the registry the dispatch is rejected with the
  command-not-found message; no authorization check fires, no rate-limit bucket is acquired
  or consumed, and the handler is not invoked. The gate and the rate-limit step both pass
  an undefined command through untouched, and the dispatch does one thing: it sends the
  not-found reply (ephemeral). The registry and the counters are as before.
\<close>

theorem unknown_command_only_replies_not_found:
  assumes "commandStoreMap w (data_name i) = None"
  shows "authorizationGate e i (commandStoreMap w (data_name i)) = None \<and>
         ratelimitStep e i (commandStoreMap w (data_name i)) w = (None, w) \<and>
         processCommandInteraction e i w =
           (createMessage i (CommandNotFound, True),
            w\<lparr>events := events w @ [CreateMessage CommandNotFound True]\<rparr>)"
  using assms by (simp add: processCommandInteraction_def send_def)

theorem unknown_command_only_replies_not_found_witness:
  "commandStoreMap ex_world (data_name ex_interaction) = None \<and>
   processCommandInteraction ex_env ex_interaction ex_world =
     (None, ex_world\<lparr>events := [CreateMessage CommandNotFound True]\<rparr>)"
  using unknown_command_only_replies_not_found [of ex_world ex_interaction ex_env]
  by (simp add: ex_defs)

subsection \<open>C9: the owner is not rate-limited\<close>

text \<open>
  Claim C9: for an owner caller the rate-limiting step is skipped entirely: no scope of the
  policy, strict or passive, is acquired or consumed, and all rate-limit bucket state is
  unchanged by the invocation. For an owner the rate-limit step returns the world it was
  given, the registry (which owns every manager and bucket) is the same after the dispatch
  as before, and the dispatch adds a single event to the trace, which is neither an
  acquisition nor a consumption.
\<close>

theorem owner_skips_rate_limiting:
  assumes "isOwner e (user_id i)"
  shows "ratelimitStep e i (commandStoreMap w (data_name i)) w = (None, w) \<and>
         commandStoreMap (snd (processCommandInteraction e i w)) = commandStoreMap w \<and>
         (\<exists>ev. events (snd (processCommandInteraction e i w)) = events w @ [ev] \<and>
               (\<forall>s k. ev \<noteq> Acquire s k \<and> ev \<noteq> Consume s k))"
  using assms
  by (auto simp: processCommandInteraction_def ratelimitStep_owner send_def Let_def
           split: option.splits)

theorem owner_skips_rate_limiting_witness:
  "isOwner ex_env (user_id ex_owner_interaction) \<and>
   processCommandInteraction ex_env ex_owner_interaction
     (ex_world\<lparr>commandStoreMap :=
        [''ping'' \<mapsto> ex_command\<lparr>ratelimit :=
            Some \<lparr>global = Some ex_exhausted, guild = Some ex_empty, user = Some ex_stale\<rparr>\<rparr>]\<rparr>)
   = (None,
      ex_world\<lparr>commandStoreMap :=
        [''ping'' \<mapsto> ex_command\<lparr>ratelimit :=
            Some \<lparr>global = Some ex_exhausted, guild = Some ex_empty, user = Some ex_stale\<rparr>\<rparr>],
        events := [Run ''ping'']\<rparr>)"
proof -
  let ?c = "ex_command\<lparr>ratelimit :=
            Some \<lparr>global = Some ex_exhausted, guild = Some ex_empty, user = Some ex_stale\<rparr>\<rparr>"
  let ?w = "ex_world\<lparr>commandStoreMap := [''ping'' \<mapsto> ?c]\<rparr>"
  have h: "isOwner ex_env (user_id ex_owner_interaction)"
    by (simp add: ex_defs)
  have g: "authorizationGate ex_env ex_owner_interaction (Some ?c) = None"
    by (simp add: ex_defs authorizationGate_def opt_flag_def opt_field_def)
  have n: "commandStoreMap ?w (data_name ex_owner_interaction) = Some ?c"
    by (simp add: ex_defs)
  have "ratelimitStep ex_env ex_owner_interaction (Some ?c) ?w = (None, ?w)"
    using owner_skips_rate_limiting [OF h, of ?w] n by simp
  then have "processCommandInteraction ex_env ex_owner_interaction ?w =
      (run ?c ex_owner_interaction, ?w\<lparr>events := events ?w @ [Run (data_name ex_owner_interaction)]\<rparr>)"
    using g n by (simp add: processCommandInteraction_def)
  then show ?thesis
    using h by (simp add: ex_defs)
qed

subsection \<open>C10: user permissions where there is no guild member\<close>

text \<open>
  Claim C10: for a caller who is not an owner, invoking a command that declares
  \<open>requiredUserPermissions\<close> in a context without a guild member (a direct message),
  the user-permission check always rejects with the missing-permissions message, whatever
  permissions the caller holds. With no member the permission set to ask is undefined, so
  the check fires for every list of required permissions. The dispatch of such an
  invocation always ends in a rejection: it sends the one reply of the check that fired and
  does nothing else (no rate-limit call, no handler run); and when none of the five earlier
  checks fires, that one reply is the missing-permissions message of the user-permission
  check (ephemeral), carrying the required list.
\<close>

theorem no_member_fails_user_permissions:
  assumes "\<not> isOwner e (user_id i)"
    and "commandStoreMap w (data_name i) = Some c"
    and "requiredUserPermissions c = Some required"
    and "member_permissions i = None"
  shows "(\<exists>m eph. authorizationGate e i (Some c) = Some (m, eph) \<and>
            processCommandInteraction e i w =
              (createMessage i (m, eph), w\<lparr>events := events w @ [CreateMessage m eph]\<rparr>)) \<and>
         (\<not> disabled c \<and> \<not> superUserOnly c \<and>
          \<not> (premiumOnly c \<and> \<not> isPremiumUser e (user_id i)) \<and> \<not> helperUserOnly c \<and>
          (\<forall>req. requiredBotPermissions c = Some req \<longrightarrow> has (appPermissions i) req)
          \<longrightarrow> authorizationGate e i (Some c) = Some (MissingPermissions required, True) \<and>
              processCommandInteraction e i w =
                (createMessage i (MissingPermissions required, True),
                 w\<lparr>events := events w @ [CreateMessage (MissingPermissions required) True]\<rparr>))"
proof -
  have fires: "authorizationGate e i (Some c) \<noteq> None"
    using assms(1,3,4)
    by (auto simp: authorizationGate_def opt_flag_def opt_field_def has_def split: option.splits)
  then obtain m eph where g: "authorizationGate e i (Some c) = Some (m, eph)"
    by (cases "authorizationGate e i (Some c)") auto
  have p: "processCommandInteraction e i w =
      (createMessage i (m, eph), w\<lparr>events := events w @ [CreateMessage m eph]\<rparr>)"
    using assms(2) g by (simp add: processCommandInteraction_def send_def)
  have last: "\<not> disabled c \<and> \<not> superUserOnly c \<and>
      \<not> (premiumOnly c \<and> \<not> isPremiumUser e (user_id i)) \<and> \<not> helperUserOnly c \<and>
      (\<forall>req. requiredBotPermissions c = Some req \<longrightarrow> has (appPermissions i) req)
      \<longrightarrow> authorizationGate e i (Some c) = Some (MissingPermissions required, True)"
    using assms(1,3,4)
    by (auto simp: authorizationGate_def opt_flag_def opt_field_def has_def split: option.splits)
  show ?thesis
    using g p last by auto
qed

theorem no_member_fails_user_permissions_witness:
  "\<not> isOwner ex_env (user_id ex_dm_interaction) \<and>
   member_permissions ex_dm_interaction = None \<and>
   requiredUserPermissions ex_guarded_command = Some [''MANAGE_GUILD''] \<and>
   processCommandInteraction ex_env ex_dm_interaction ex_guarded_world =
     (None,
      ex_guarded_world\<lparr>events := [CreateMessage (MissingPermissions [''MANAGE_GUILD'']) True]\<rparr>)"
proof -
  have h1: "\<not> isOwner ex_env (user_id ex_dm_interaction)"
    by (simp add: ex_defs)
  have h2: "commandStoreMap ex_guarded_world (data_name ex_dm_interaction)
              = Some ex_guarded_command"
    by (simp add: ex_defs)
  have h3: "requiredUserPermissions ex_guarded_command = Some [''MANAGE_GUILD'']"
    by (simp add: ex_defs)
  have h4: "member_permissions ex_dm_interaction = None"
    by (simp add: ex_defs)
  have e: "\<not> disabled ex_guarded_command \<and> \<not> superUserOnly ex_guarded_command \<and>
      \<not> (premiumOnly ex_guarded_command \<and> \<not> isPremiumUser ex_env (user_id ex_dm_interaction)) \<and>
      \<not> helperUserOnly ex_guarded_command \<and>
      (\<forall>req. requiredBotPermissions ex_guarded_command = Some req
          \<longrightarrow> has (appPermissions ex_dm_interaction) req)"
    by (simp add: ex_defs has_def)
  have c: "createMessage ex_dm_interaction (MissingPermissions [''MANAGE_GUILD''], True) = None"
    and ev: "events ex_guarded_world = []"
    by (simp_all add: ex_defs)
  show ?thesis
    using h1 h3 h4 e c ev no_member_fails_user_permissions [OF h1 h2 h3 h4]
    by simp
qed

end
